theory Spec2Isabelle
  imports Main "HOL-Library.Word"
begin

unbundle bit_operations_syntax

section \<open>CPU clock frequency detection (Library/OcCpuLib/FrequencyDetect.c)\<close>

text \<open>
  A shallow embedding of the four functions of \<^verbatim>\<open>FrequencyDetect.c\<close>:
  \<^verbatim>\<open>InternalGetPmTimerAddr\<close>, \<^verbatim>\<open>InternalCalculateTSCFromPMTimer\<close>,
  \<^verbatim>\<open>InternalCalcluateARTFrequencyIntel\<close> and \<^verbatim>\<open>OcGetTSCFrequency\<close>.

  \<^item> C integers are words of their width (\<^verbatim>\<open>UINT8\<close> .. \<^verbatim>\<open>UINT64\<close>; \<^verbatim>\<open>UINTN\<close> is
    the 64-bit one), so that \<open>+\<close>, \<open>-\<close> and \<open>*\<close> wrap as they do in C.
  \<^item> The three function-level \<^verbatim>\<open>STATIC\<close> variables are the fields of the record
    \<open>state\<close>, passed in and returned.
  \<^item> The platform primitives (PCI configuration reads, \<^verbatim>\<open>CPUID\<close>, MMIO and port
    reads, the time-stamp counter) are the fields of the record \<open>hw\<close>. Configuration
    reads are functions of their address. The port read and the counter read vary with
    time: they take the number of timed accesses made so far (the field \<open>clock\<close> of the
    state, advanced by every \<^verbatim>\<open>IoRead32\<close>, \<^verbatim>\<open>AsmReadTsc\<close> and \<^verbatim>\<open>Stall\<close>).
  \<^item> \<^verbatim>\<open>RaiseTPL\<close>, \<^verbatim>\<open>RestoreTPL\<close>, \<^verbatim>\<open>CpuPause\<close> and \<^verbatim>\<open>DEBUG\<close> change none of
    the values computed and are left out.
  \<^item> The busy loop may run forever; it is a partial function in the option monad, and
    \<open>None\<close> means that the call does not return.
  \<^item> The constants of the headers that are not part of the sources at hand
    (\<^verbatim>\<open>IndustryStandard/GenericIch.h\<close>, \<^verbatim>\<open>ProcessorInfo.h\<close>) are the fields of the
    record \<open>platform\<close>, a parameter of every function.
\<close>

type_synonym u8 = "8 word"
type_synonym u16 = "16 word"
type_synonym u32 = "32 word"
type_synonym u64 = "64 word"
type_synonym uintn = "64 word"

subsection \<open>Header constants\<close>

record platform =
  V_ICH_PCI_VENDOR_ID :: u16
  PCI_ICH_LPC_ADDRESS :: "u32 \<Rightarrow> uintn"
  PCI_ICH_PMC_ADDRESS :: "u32 \<Rightarrow> uintn"
  R_ICH_LPC_ACPI_CNTL :: u32
  B_ICH_LPC_ACPI_CNTL_ACPI_EN :: u8
  R_ICH_LPC_ACPI_BASE :: u32
  B_ICH_LPC_ACPI_BASE_BAR :: u16
  R_ICH_PMC_ACPI_CNTL :: u32
  B_ICH_PMC_ACPI_CNTL_ACPI_EN :: u8
  R_ICH_PMC_ACPI_BASE :: u32
  B_ICH_PMC_ACPI_BASE_BAR :: u16
  R_ICH_PMC_BAR2_BASE :: u32
  B_ICH_PMC_BAR2_BASE_BAR_EN :: u16
  B_ICH_PMC_BAR2_BASE_BAR :: u16
  R_ACPI_PM1_TMR :: u16
  R_AMD_ACPI_MMIO_BASE :: uintn
  R_AMD_ACPI_MMIO_PMIO_BASE :: uintn
  R_AMD_ACPI_PM_TMR_BLOCK :: uintn
  CPUID_VENDOR_INTEL :: u32
  CPUID_VENDOR_AMD :: u32
  CPU_MODEL_SKYLAKE :: u8
  CPU_MODEL_SKYLAKE_DT :: u8
  CPU_MODEL_KABYLAKE :: u8
  CPU_MODEL_KABYLAKE_DT :: u8
  CPU_MODEL_DENVERTON :: u8
  CPU_MODEL_GOLDMONT :: u8
  DebugAssertEnabled :: bool

text \<open>
  \<open>DebugAssertEnabled\<close> is the build configuration of \<^verbatim>\<open>ASSERT\<close>: compiled out
  (\<^verbatim>\<open>MDEPKG_NDEBUG\<close>) when \<open>False\<close>; when \<open>True\<close> a failed assertion ends in
  \<^verbatim>\<open>DebugAssert\<close>, which halts the processor, so the call does not return.
\<close>

definition ASSERT :: "platform \<Rightarrow> bool \<Rightarrow> 'a option \<Rightarrow> 'a option" where
  "ASSERT k Expression rest = (if DebugAssertEnabled k \<and> \<not> Expression then None else rest)"

text \<open>
  Modelled from the spec: the value of \<^verbatim>\<open>V_ACPI_TMR_FREQUENCY\<close> (GenericIch.h is not
  among the sources), "the known 3,579,545-tick/sec nominal rate of this timer class";
  the comment at line 162 of the source agrees (357954 clocks in 100 ms).
\<close>

definition V_ACPI_TMR_FREQUENCY :: u32 where
  "V_ACPI_TMR_FREQUENCY = 3579545"

text \<open>
  Modelled from the spec: the values of the crystal-clock constants of
  \<^verbatim>\<open>ProcessorInfo.h\<close> (not among the sources): 24 MHz client parts, 25 MHz server
  parts, 19.2 MHz low-power parts, and the 24 MHz default; the comments at lines
  292, 295, 298 and 338 of the source give the same figures.
\<close>

definition CLIENT_ART_CLOCK_SOURCE :: u64 where
  "CLIENT_ART_CLOCK_SOURCE = 24000000"

definition SERVER_ART_CLOCK_SOURCE :: u64 where
  "SERVER_ART_CLOCK_SOURCE = 25000000"

definition ATOM_ART_CLOCK_SOURCE :: u64 where
  "ATOM_ART_CLOCK_SOURCE = 19200000"

definition DEFAULT_ART_CLOCK_SOURCE :: u64 where
  "DEFAULT_ART_CLOCK_SOURCE = CLIENT_ART_CLOCK_SOURCE"

text \<open>
  The \<^verbatim>\<open>CPUID\<close> leaf numbers and the number of the model-specific register are
  those of the processor architecture.
\<close>

definition CPUID_SIGNATURE :: u32 where
  "CPUID_SIGNATURE = 0x00"

definition CPUID_VERSION_INFO :: u32 where
  "CPUID_VERSION_INFO = 0x01"

definition CPUID_TIME_STAMP_COUNTER :: u32 where
  "CPUID_TIME_STAMP_COUNTER = 0x15"

definition CPUID_PROCESSOR_FREQUENCY :: u32 where
  "CPUID_PROCESSOR_FREQUENCY = 0x16"

definition MSR_IA32_TSC_ADJUST :: u32 where
  "MSR_IA32_TSC_ADJUST = 0x3B"

definition MAX_UINT32 :: u32 where
  "MAX_UINT32 = 0xFFFFFFFF"

subsection \<open>Platform primitives\<close>

record cpuid_regs =
  Eax :: u32
  Ebx :: u32
  Ecx :: u32
  Edx :: u32

record hw =
  PciRead8 :: "uintn \<Rightarrow> u8"
  PciRead16 :: "uintn \<Rightarrow> u16"
  MmioRead32 :: "uintn \<Rightarrow> u32"
  AsmCpuid :: "u32 \<Rightarrow> cpuid_regs"
  AsmReadMsr64 :: "u32 \<Rightarrow> u64"
  IoRead32 :: "nat \<Rightarrow> uintn \<Rightarrow> u32"
  AsmReadTsc :: "nat \<Rightarrow> u64"

text \<open>
  \<^verbatim>\<open>MultU64x32\<close> and \<^verbatim>\<open>DivU64x32\<close> of BaseLib: a 64-bit by 32-bit product
  truncated to 64 bits, and a 64-bit by 32-bit quotient.
\<close>

definition MultU64x32 :: "u64 \<Rightarrow> u32 \<Rightarrow> u64" where
  "MultU64x32 Multiplicand Multiplier = Multiplicand * ucast Multiplier"

definition DivU64x32 :: "u64 \<Rightarrow> u32 \<Rightarrow> u64" where
  "DivU64x32 Dividend Divisor = Dividend div ucast Divisor"

text \<open>
  Modelled from the spec: \<^verbatim>\<open>MultThenDivU64x64x32\<close> of OcMiscLib, which is not among
  the sources. The spec gives its results as "TSCFrequency \<times> denominator \<div> numerator"
  and "crystal \<times> numerator \<div> denominator", computed with an intermediate precision
  of at least 96 bits: the product is exact, and the quotient is returned in 64 bits.
\<close>

definition MultThenDivU64x64x32 :: "u64 \<Rightarrow> u64 \<Rightarrow> u32 \<Rightarrow> u64" where
  "MultThenDivU64x64x32 Multiplicand Multiplier Divisor =
     word_of_int ((uint Multiplicand * uint Multiplier) div uint Divisor)"

subsection \<open>The static variables\<close>

record state =
  TSCFrequency :: u64
  ARTFrequency :: u64
  CPUFrequencyFromART :: u64
  clock :: nat

subsection \<open>InternalGetPmTimerAddr (lines 32--115)\<close>

text \<open>
  The parameter \<open>Type\<close> is \<open>True\<close> when the pointer \<^verbatim>\<open>Type\<close> is not \<^verbatim>\<open>NULL\<close>;
  the second component of the result is the string then stored in \<^verbatim>\<open>*Type\<close>, and
  \<open>None\<close> when nothing is stored.
\<close>

definition InternalGetPmTimerAddr :: "platform \<Rightarrow> hw \<Rightarrow> bool \<Rightarrow> uintn \<times> string option" where
  "InternalGetPmTimerAddr k h Type =
    (let TimerAddr0 = (0 :: uintn);
         Type0 = (if Type then Some ''Failure'' else None);
         (TimerAddr1, Type1) =
           (if PciRead16 h (PCI_ICH_LPC_ADDRESS k 0) = V_ICH_PCI_VENDOR_ID k then
              if (PciRead8 h (PCI_ICH_LPC_ADDRESS k (R_ICH_LPC_ACPI_CNTL k))
                    AND B_ICH_LPC_ACPI_CNTL_ACPI_EN k) \<noteq> 0 then
                (ucast (PciRead16 h (PCI_ICH_LPC_ADDRESS k (R_ICH_LPC_ACPI_BASE k))
                          AND B_ICH_LPC_ACPI_BASE_BAR k) + ucast (R_ACPI_PM1_TMR k),
                 if Type then Some ''LPC'' else Type0)
              else if PciRead16 h (PCI_ICH_PMC_ADDRESS k 0) = V_ICH_PCI_VENDOR_ID k then
                if (PciRead8 h (PCI_ICH_PMC_ADDRESS k (R_ICH_PMC_ACPI_CNTL k))
                      AND B_ICH_PMC_ACPI_CNTL_ACPI_EN k) \<noteq> 0 then
                  (ucast (PciRead16 h (PCI_ICH_PMC_ADDRESS k (R_ICH_PMC_ACPI_BASE k))
                            AND B_ICH_PMC_ACPI_BASE_BAR k) + ucast (R_ACPI_PM1_TMR k),
                   if Type then Some ''PMC ACPI'' else Type0)
                else if (PciRead16 h (PCI_ICH_PMC_ADDRESS k (R_ICH_PMC_BAR2_BASE k))
                           AND B_ICH_PMC_BAR2_BASE_BAR_EN k) \<noteq> 0 then
                  (ucast (PciRead16 h (PCI_ICH_PMC_ADDRESS k (R_ICH_PMC_BAR2_BASE k))
                            AND B_ICH_PMC_BAR2_BASE_BAR k) + ucast (R_ACPI_PM1_TMR k),
                   if Type then Some ''PMC BAR2'' else Type0)
                else if Type then (TimerAddr0, Some ''Invalid INTEL PMC'')
                else (TimerAddr0, Type0)
              else if Type then (TimerAddr0, Some ''Unknown INTEL'')
              else (TimerAddr0, Type0)
            else (TimerAddr0, Type0))
     in if TimerAddr1 = 0 then
          (let CpuVendor = Ebx (AsmCpuid h CPUID_SIGNATURE)
           in if CpuVendor = CPUID_VENDOR_AMD k then
                (ucast (MmioRead32 h (R_AMD_ACPI_MMIO_BASE k + R_AMD_ACPI_MMIO_PMIO_BASE k
                                        + R_AMD_ACPI_PM_TMR_BLOCK k)),
                 if Type then Some ''AMD'' else Type1)
              else (TimerAddr1, Type1))
        else (TimerAddr1, Type1))"

subsection \<open>InternalCalculateTSCFromPMTimer (lines 117--226)\<close>

text \<open>
  The ticks passed between two readings of the timer, as the body of the
  \<^verbatim>\<open>do\<close> loop computes them (lines 182--197).
\<close>

definition AcpiTicksPassed :: "u32 \<Rightarrow> u32 \<Rightarrow> u32" where
  "AcpiTicksPassed AcpiTick0 AcpiTick1 =
    (if AcpiTick0 \<le> AcpiTick1 then AcpiTick1 - AcpiTick0
     else if AcpiTick0 - AcpiTick1 \<le> 0x00FFFFFF then 0x00FFFFFF - AcpiTick0 + AcpiTick1
     else MAX_UINT32 - AcpiTick0 + AcpiTick1)"

text \<open>
  The \<^verbatim>\<open>do\<close> loop (lines 174--202), started at the clock value \<open>t\<close>: it returns the
  last \<^verbatim>\<open>AcpiTicksDelta\<close> and the clock after the last read.
\<close>

partial_function (option) AcpiTicksLoop ::
  "hw \<Rightarrow> uintn \<Rightarrow> u32 \<Rightarrow> u32 \<Rightarrow> nat \<Rightarrow> (u32 \<times> nat) option" where
  "AcpiTicksLoop h TimerAddr AcpiTick0 AcpiTicksTarget t =
    (let AcpiTick1 = IoRead32 h t TimerAddr;
         AcpiTicksDelta = AcpiTicksPassed AcpiTick0 AcpiTick1
     in if AcpiTicksDelta < AcpiTicksTarget
        then AcpiTicksLoop h TimerAddr AcpiTick0 AcpiTicksTarget (Suc t)
        else Some (AcpiTicksDelta, Suc t))"

declare AcpiTicksLoop.simps [code]

text \<open>The frequency computed from the two counter readings (lines 211--213).\<close>

definition TSCFrequencyFromTicks :: "u64 \<Rightarrow> u64 \<Rightarrow> u32 \<Rightarrow> u64" where
  "TSCFrequencyFromTicks Tsc0 Tsc1 AcpiTicksDelta =
     DivU64x32 (MultU64x32 (Tsc1 - Tsc0) V_ACPI_TMR_FREQUENCY) AcpiTicksDelta"

definition InternalCalculateTSCFromPMTimer ::
  "platform \<Rightarrow> hw \<Rightarrow> bool \<Rightarrow> state \<Rightarrow> (u64 \<times> state) option" where
  "InternalCalculateTSCFromPMTimer k h Recalculate s0 =
    (let s1 = (if Recalculate then s0\<lparr>TSCFrequency := 0\<rparr> else s0)
     in if TSCFrequency s1 = 0 then
          (let TimerAddr = fst (InternalGetPmTimerAddr k h False);
               TimerResolution = (10 :: u32)
           in if TimerAddr \<noteq> 0 then
                (let AcpiTick0 = IoRead32 h (clock s1) TimerAddr;
                     AcpiTick1 = IoRead32 h (clock s1 + 2) TimerAddr;
                     s2 = s1\<lparr>clock := clock s1 + 3\<rparr>
                 in if AcpiTick0 \<noteq> AcpiTick1 then
                      (let AcpiTicksTarget = V_ACPI_TMR_FREQUENCY div TimerResolution;
                           AcpiTick0 = IoRead32 h (clock s2) TimerAddr;
                           Tsc0 = AsmReadTsc h (clock s2 + 1)
                       in case AcpiTicksLoop h TimerAddr AcpiTick0 AcpiTicksTarget (clock s2 + 2) of
                            None \<Rightarrow> None
                          | Some (AcpiTicksDelta, t) \<Rightarrow>
                              (let Tsc1 = AsmReadTsc h t;
                                   s3 = s2\<lparr>TSCFrequency :=
                                             TSCFrequencyFromTicks Tsc0 Tsc1 AcpiTicksDelta,
                                           clock := Suc t\<rparr>
                               in Some (TSCFrequency s3, s3)))
                    else Some (TSCFrequency s2, s2))
              else Some (TSCFrequency s1, s1))
        else Some (TSCFrequency s1, s1))"

subsection \<open>InternalCalcluateARTFrequencyIntel (lines 228--370)\<close>

text \<open>
  The bit fields of \<^verbatim>\<open>CPUID_VERSION_INFO_EAX\<close> (\<^verbatim>\<open>Model\<close> is bits 4--7,
  \<^verbatim>\<open>ExtendedModelId\<close> bits 16--19) and of \<^verbatim>\<open>CPUID_PROCESSOR_FREQUENCY_EAX\<close>
  (\<^verbatim>\<open>ProcessorBaseFrequency\<close> is bits 0--15), and the model number of line 283.
\<close>

definition Bits_Model :: "u32 \<Rightarrow> u32" where
  "Bits_Model CpuidVerEax = drop_bit 4 CpuidVerEax AND 0xF"

definition Bits_ExtendedModelId :: "u32 \<Rightarrow> u32" where
  "Bits_ExtendedModelId CpuidVerEax = drop_bit 16 CpuidVerEax AND 0xF"

definition Bits_ProcessorBaseFrequency :: "u32 \<Rightarrow> u32" where
  "Bits_ProcessorBaseFrequency CpuidFrequencyEax = CpuidFrequencyEax AND 0xFFFF"

definition CpuModel :: "u32 \<Rightarrow> u8" where
  "CpuModel CpuidVerEax =
     (ucast (Bits_Model CpuidVerEax) :: u8)
       OR (ucast (push_bit 4 (Bits_ExtendedModelId CpuidVerEax)) :: u8)"

text \<open>
  The \<^verbatim>\<open>switch\<close> of lines 287--300: the new value of \<^verbatim>\<open>ARTFrequency\<close>, which a
  model that no \<^verbatim>\<open>case\<close> names leaves as it is.
\<close>

definition KnownModelARTFrequency :: "platform \<Rightarrow> u8 \<Rightarrow> u64 \<Rightarrow> u64" where
  "KnownModelARTFrequency k Model ARTFrequency0 =
    (if Model = CPU_MODEL_SKYLAKE k \<or> Model = CPU_MODEL_SKYLAKE_DT k
        \<or> Model = CPU_MODEL_KABYLAKE k \<or> Model = CPU_MODEL_KABYLAKE_DT k
     then CLIENT_ART_CLOCK_SOURCE
     else if Model = CPU_MODEL_DENVERTON k then SERVER_ART_CLOCK_SOURCE
     else if Model = CPU_MODEL_GOLDMONT k then ATOM_ART_CLOCK_SOURCE
     else ARTFrequency0)"

text \<open>
  Lines 306--364, run when the ratio leaf reports a denominator and a numerator:
  the state after them, or \<open>None\<close> when the calibration or an assertion does not return.
\<close>

definition ARTFrequencyFromRatio ::
  "platform \<Rightarrow> hw \<Rightarrow> bool \<Rightarrow> u32 \<Rightarrow> u32 \<Rightarrow> u32 \<Rightarrow> state \<Rightarrow> state option" where
  "ARTFrequencyFromRatio k h Recalculate MaxId CpuidDenominatorEax CpuidNumeratorEbx s2 =
    (case (if ARTFrequency s2 = 0 \<and> CPUID_PROCESSOR_FREQUENCY \<le> MaxId then
             (case InternalCalculateTSCFromPMTimer k h Recalculate s2 of
                None \<Rightarrow> None
              | Some (CPUFrequencyFromTSC, s3) \<Rightarrow>
                  (let s4 = s3\<lparr>ARTFrequency :=
                                 MultThenDivU64x64x32 CPUFrequencyFromTSC
                                   (ucast CpuidDenominatorEax) CpuidNumeratorEbx\<rparr>
                   in if 0 < ARTFrequency s4 then
                        (let CpuidFrequencyEax = Eax (AsmCpuid h CPUID_PROCESSOR_FREQUENCY)
                         in Some (s4\<lparr>CPUFrequencyFromART :=
                                        MultU64x32 (ucast (Bits_ProcessorBaseFrequency CpuidFrequencyEax))
                                          1000000\<rparr>))
                      else Some s4))
           else Some s2) of
       None \<Rightarrow> None
     | Some s5 \<Rightarrow>
         (let s6 = (if ARTFrequency s5 = 0
                    then s5\<lparr>ARTFrequency := DEFAULT_ART_CLOCK_SOURCE\<rparr> else s5)
          in ASSERT k (0 < ARTFrequency s6)
               (let s7 = (if CPUFrequencyFromART s6 = 0
                          then s6\<lparr>CPUFrequencyFromART :=
                                     MultThenDivU64x64x32 (ARTFrequency s6)
                                       (ucast CpuidNumeratorEbx) CpuidDenominatorEax\<rparr>
                          else s6)
                in ASSERT k (0 < CPUFrequencyFromART s7) (Some s7))))"

text \<open>
  Lines 259--366, the statement \<^verbatim>\<open>if (ARTFrequency == 0) { ... }\<close>: the state
  after it. \<^verbatim>\<open>TscAdjust\<close> is read and only logged.
\<close>

definition DetermineARTFrequency :: "platform \<Rightarrow> hw \<Rightarrow> bool \<Rightarrow> state \<Rightarrow> state option" where
  "DetermineARTFrequency k h Recalculate s1 =
    (if ARTFrequency s1 = 0 then
       (let MaxId = Eax (AsmCpuid h CPUID_SIGNATURE);
            CpuVendor = Ebx (AsmCpuid h CPUID_SIGNATURE)
        in if CpuVendor = CPUID_VENDOR_INTEL k \<and> CPUID_TIME_STAMP_COUNTER \<le> MaxId then
             (let TscAdjust = AsmReadMsr64 h MSR_IA32_TSC_ADJUST;
                  CpuidDenominatorEax = Eax (AsmCpuid h CPUID_TIME_STAMP_COUNTER);
                  CpuidNumeratorEbx = Ebx (AsmCpuid h CPUID_TIME_STAMP_COUNTER);
                  CpuidARTFrequencyEcx = Ecx (AsmCpuid h CPUID_TIME_STAMP_COUNTER);
                  s2 = (if 0 < CpuidARTFrequencyEcx
                        then s1\<lparr>ARTFrequency := ucast CpuidARTFrequencyEcx\<rparr>
                        else (let CpuidVerEax = Eax (AsmCpuid h CPUID_VERSION_INFO);
                                  Model = CpuModel CpuidVerEax
                              in s1\<lparr>ARTFrequency :=
                                      KnownModelARTFrequency k Model (ARTFrequency s1)\<rparr>))
              in if 0 < CpuidDenominatorEax \<and> 0 < CpuidNumeratorEbx
                 then ARTFrequencyFromRatio k h Recalculate MaxId
                        CpuidDenominatorEax CpuidNumeratorEbx s2
                 else Some s2)
           else Some s1)
     else Some s1)"

text \<open>
  The whole function: the result is the pair of the returned \<^verbatim>\<open>ARTFrequency\<close> and
  the value stored in \<^verbatim>\<open>*CPUFrequency\<close>, with the state after the call.
\<close>

definition InternalCalcluateARTFrequencyIntel ::
  "platform \<Rightarrow> hw \<Rightarrow> bool \<Rightarrow> state \<Rightarrow> ((u64 \<times> u64) \<times> state) option" where
  "InternalCalcluateARTFrequencyIntel k h Recalculate s0 =
    (let s1 = (if Recalculate then s0\<lparr>ARTFrequency := 0, CPUFrequencyFromART := 0\<rparr> else s0)
     in case DetermineARTFrequency k h Recalculate s1 of
          None \<Rightarrow> None
        | Some s \<Rightarrow> Some ((ARTFrequency s, CPUFrequencyFromART s), s))"

subsection \<open>OcGetTSCFrequency (lines 372--393)\<close>

definition OcGetTSCFrequency :: "platform \<Rightarrow> hw \<Rightarrow> state \<Rightarrow> (u64 \<times> state) option" where
  "OcGetTSCFrequency k h s0 =
    (case InternalCalcluateARTFrequencyIntel k h False s0 of
       None \<Rightarrow> None
     | Some ((ARTFrequency1, CPUFrequency), s1) \<Rightarrow>
         if CPUFrequency = 0 then InternalCalculateTSCFromPMTimer k h False s1
         else Some (CPUFrequency, s1))"

text \<open>The state at module entry: the three static variables are initialised to 0.\<close>

definition initial_state :: state where
  "initial_state = \<lparr>TSCFrequency = 0, ARTFrequency = 0, CPUFrequencyFromART = 0, clock = 0\<rparr>"

section \<open>Sample platforms\<close>

text \<open>
  Concrete values for the header constants (those of an Intel ICH/PCH chipset: device
  31, function 0 for the LPC bridge and function 2 for the PMC), with assertions
  enabled, and concrete hardware on which the functions are run below.
\<close>

definition reference_platform :: platform where
  "reference_platform = \<lparr>
     V_ICH_PCI_VENDOR_ID = 0x8086,
     PCI_ICH_LPC_ADDRESS = (\<lambda>Register. 0xF8000 + ucast Register),
     PCI_ICH_PMC_ADDRESS = (\<lambda>Register. 0xFA000 + ucast Register),
     R_ICH_LPC_ACPI_CNTL = 0x44,
     B_ICH_LPC_ACPI_CNTL_ACPI_EN = 0x80,
     R_ICH_LPC_ACPI_BASE = 0x40,
     B_ICH_LPC_ACPI_BASE_BAR = 0xFF80,
     R_ICH_PMC_ACPI_CNTL = 0x44,
     B_ICH_PMC_ACPI_CNTL_ACPI_EN = 0x80,
     R_ICH_PMC_ACPI_BASE = 0x40,
     B_ICH_PMC_ACPI_BASE_BAR = 0xFF80,
     R_ICH_PMC_BAR2_BASE = 0x20,
     B_ICH_PMC_BAR2_BASE_BAR_EN = 0x0001,
     B_ICH_PMC_BAR2_BASE_BAR = 0xFFFC,
     R_ACPI_PM1_TMR = 0x08,
     R_AMD_ACPI_MMIO_BASE = 0xFED80000,
     R_AMD_ACPI_MMIO_PMIO_BASE = 0x0300,
     R_AMD_ACPI_PM_TMR_BLOCK = 0x64,
     CPUID_VENDOR_INTEL = 0x756E6547,
     CPUID_VENDOR_AMD = 0x68747541,
     CPU_MODEL_SKYLAKE = 0x4E,
     CPU_MODEL_SKYLAKE_DT = 0x5E,
     CPU_MODEL_KABYLAKE = 0x8E,
     CPU_MODEL_KABYLAKE_DT = 0x9E,
     CPU_MODEL_DENVERTON = 0x5F,
     CPU_MODEL_GOLDMONT = 0x5C,
     DebugAssertEnabled = True\<rparr>"

definition cpuid_of :: "u32 \<Rightarrow> u32 \<Rightarrow> u32 \<Rightarrow> u32 \<Rightarrow> cpuid_regs" where
  "cpuid_of a b c d = \<lparr>Eax = a, Ebx = b, Ecx = c, Edx = d\<rparr>"

text \<open>
  Hardware with the given configuration space and \<^verbatim>\<open>CPUID\<close> leaves. Between two
  timed accesses a thirtieth of a second passes: the timer at port \<open>0x408\<close> advances by
  119318 ticks and the time-stamp counter by 100000000. The AMD window reads as zero.
\<close>

definition sample_hw :: "(uintn \<Rightarrow> u8) \<Rightarrow> (uintn \<Rightarrow> u16) \<Rightarrow> (u32 \<Rightarrow> cpuid_regs) \<Rightarrow> hw" where
  "sample_hw Pci8 Pci16 Cpuid = \<lparr>
     PciRead8 = Pci8,
     PciRead16 = Pci16,
     MmioRead32 = (\<lambda>Address. 0),
     AsmCpuid = Cpuid,
     AsmReadMsr64 = (\<lambda>Index. 0),
     IoRead32 = (\<lambda>t Port. if Port = 0x408 then 119318 * word_of_nat t else 0xFFFFFFFF),
     AsmReadTsc = (\<lambda>t. 100000000 * word_of_nat t)\<rparr>"

text \<open>
  An Intel processor with the given highest leaf, version information, ratio leaf
  (denominator, numerator, crystal frequency) and base frequency in MHz, on a chipset
  that has the timer in the LPC bridge, at port \<open>0x408\<close>.
\<close>

definition hw_intel :: "u32 \<Rightarrow> u32 \<Rightarrow> u32 \<Rightarrow> u32 \<Rightarrow> u32 \<Rightarrow> u32 \<Rightarrow> hw" where
  "hw_intel MaxId VerEax Den Num Crystal BaseMHz =
     sample_hw (\<lambda>Address. if Address = 0xF8044 then 0x80 else 0)
       (\<lambda>Address. if Address = 0xF8000 then 0x8086
                   else if Address = 0xF8040 then 0x0401 else 0xFFFF)
       (\<lambda>Index. if Index = 0x00 then cpuid_of MaxId 0x756E6547 0x6C65746E 0x49656E69
                 else if Index = 0x01 then cpuid_of VerEax 0 0 0
                 else if Index = 0x15 then cpuid_of Den Num Crystal 0
                 else if Index = 0x16 then cpuid_of BaseMHz 0 0 0
                 else cpuid_of 0 0 0 0)"

text \<open>
  A processor of a model that the table does not name (\<open>0x7E\<close>), whose ratio leaf
  reports 250/2 and no crystal frequency, and whose frequency leaf reports \<open>BaseMHz\<close>.
\<close>

definition hw_measured :: "u32 \<Rightarrow> hw" where
  "hw_measured BaseMHz = hw_intel 0x16 0x000706E5 2 250 0 BaseMHz"

text \<open>
  An Intel chipset whose LPC bridge has ACPI I/O space disabled and which has no PMC
  function (a 300-series board), with an Intel processor.
\<close>

definition hw_unknown_intel :: hw where
  "hw_unknown_intel =
     sample_hw (\<lambda>Address. 0)
       (\<lambda>Address. if Address = 0xF8000 then 0x8086 else 0xFFFF)
       (\<lambda>Index. if Index = 0x00 then cpuid_of 0x0D 0x756E6547 0x6C65746E 0x49656E69
                 else cpuid_of 0 0 0 0)"

text \<open>
  A chipset on which both the LPC bridge (base \<open>0x400\<close>) and the PMC (base \<open>0x1800\<close>)
  have ACPI I/O space enabled.
\<close>

definition hw_lpc_and_pmc :: hw where
  "hw_lpc_and_pmc =
     sample_hw (\<lambda>Address. if Address = 0xF8044 \<or> Address = 0xFA044 then 0x80 else 0)
       (\<lambda>Address. if Address = 0xF8000 \<or> Address = 0xFA000 then 0x8086
                   else if Address = 0xF8040 then 0x0401
                   else if Address = 0xFA040 then 0x1801 else 0xFFFF)
       (\<lambda>Index. if Index = 0x00 then cpuid_of 0x0D 0x756E6547 0x6C65746E 0x49656E69
                 else cpuid_of 0 0 0 0)"

text \<open>
  A Skylake desktop processor (model \<open>0x5E\<close>) under a hypervisor that reports the ratio
  leaf as all zero.
\<close>

definition hw_skylake_no_ratio :: hw where
  "hw_skylake_no_ratio = hw_intel 0x16 0x000506E3 0 0 0 0"

text \<open>
  A Skylake desktop processor (model \<open>0x5E\<close>) whose ratio leaf reports 334/2 and no
  crystal frequency.
\<close>

definition hw_skylake :: hw where
  "hw_skylake = hw_intel 0x16 0x000506E3 2 334 0 4000"


text \<open>A processor of another vendor, with no chipset visible: both paths fail.\<close>

definition hw_none :: hw where
  "hw_none =
     sample_hw (\<lambda>Address. 0xFF) (\<lambda>Address. 0xFFFF)
       (\<lambda>Index. if Index = 0x00 then cpuid_of 0x01 0x746E6543 0x736C7561 0x48727561
                 else cpuid_of 0 0 0 0)"

section \<open>Arithmetic of the BaseLib primitives\<close>

lemma unat_ucast_u32_u64: "unat (ucast (w :: u32) :: u64) = unat w"
proof -
  have "unat w < 2 ^ 32" using unsigned_less [of w] by simp
  then have "unat w < 2 ^ 64" by simp
  then show ?thesis by (simp add: unsigned_ucast_eq take_bit_nat_eq_self)
qed

lemma unat_ucast_u16_u64: "unat (ucast (w :: u16) :: u64) = unat w"
proof -
  have "unat w < 2 ^ 16" using unsigned_less [of w] by simp
  then have "unat w < 2 ^ 64" by simp
  then show ?thesis by (simp add: unsigned_ucast_eq take_bit_nat_eq_self)
qed

lemma MultU64x32_unat:
  "unat (MultU64x32 Multiplicand Multiplier) = unat Multiplicand * unat Multiplier mod 2 ^ 64"
  by (simp add: MultU64x32_def unat_word_ariths unat_ucast_u32_u64)

lemma DivU64x32_unat:
  "unat (DivU64x32 Dividend Divisor) = unat Dividend div unat Divisor"
  by (simp add: DivU64x32_def unat_div unat_ucast_u32_u64)

text \<open>A 16-bit base plus a non-zero 16-bit offset is a non-zero \<^verbatim>\<open>UINTN\<close>.\<close>

lemma base_plus_offset_nonzero:
  fixes Base Offset :: u16
  assumes "Offset \<noteq> 0"
  shows "(ucast Base :: uintn) + ucast Offset \<noteq> 0"
proof -
  have b: "unat Base < 2 ^ 16" using unsigned_less [of Base] by simp
  have o: "unat Offset < 2 ^ 16" using unsigned_less [of Offset] by simp
  have "unat ((ucast Base :: uintn) + ucast Offset) = (unat Base + unat Offset) mod 2 ^ 64"
    by (simp add: unat_word_ariths unat_ucast_u16_u64)
  also have "\<dots> = unat Base + unat Offset" using b o by simp
  finally have "unat ((ucast Base :: uintn) + ucast Offset) = unat Base + unat Offset" .
  moreover have "0 < unat Offset" using assms by (simp add: unat_gt_0)
  ultimately have "unat ((ucast Base :: uintn) + ucast Offset) \<noteq> 0" by simp
  then show ?thesis by (metis unat_0)
qed

section \<open>The tick delta of the busy loop\<close>

lemma AcpiTicksPassed_no_overflow:
  "AcpiTick0 \<le> AcpiTick1 \<Longrightarrow> AcpiTicksPassed AcpiTick0 AcpiTick1 = AcpiTick1 - AcpiTick0"
  by (simp add: AcpiTicksPassed_def)

lemma AcpiTicksPassed_example_no_overflow: "AcpiTicksPassed 100 500 = 400"
  by (simp add: AcpiTicksPassed_def)

lemma AcpiTicksPassed_overflow32:
  "\<not> AcpiTick0 \<le> AcpiTick1 \<Longrightarrow> \<not> AcpiTick0 - AcpiTick1 \<le> 0x00FFFFFF \<Longrightarrow>
     AcpiTicksPassed AcpiTick0 AcpiTick1 = AcpiTick1 - AcpiTick0 - 1"
  by (simp add: AcpiTicksPassed_def MAX_UINT32_def)

text \<open>
  C1. The claim: the delta is \<open>end - start\<close> when \<open>end \<ge> start\<close>, it is \<open>0x20\<close> for
  the 24-bit wraparound from \<open>0x00FFFFF0\<close> to \<open>0x00000010\<close> and for the 32-bit
  wraparound from \<open>0xFFFFFFF0\<close> to \<open>0x00000010\<close>, and it is 400 from 100 to 500.
  The first and the last part hold (the two lemmas above). On both wraparounds the
  code computes \<open>0x1F\<close>: it adds the ticks up to the largest value of the register
  and the ticks from zero, and leaves out the tick from the largest value to zero.
\<close>

theorem C1_wraparound_delta_is_one_short:
  "AcpiTicksPassed 0x00FFFFF0 0x00000010 = 0x1F \<and>
   AcpiTicksPassed 0xFFFFFFF0 0x00000010 = 0x1F"
  by (simp add: AcpiTicksPassed_def MAX_UINT32_def)

section \<open>The frequency computed by the calibrator\<close>

lemma TSCFrequencyFromTicks_unat:
  "unat (TSCFrequencyFromTicks Tsc0 Tsc1 AcpiTicksDelta) =
     (unat (Tsc1 - Tsc0) * 3579545 mod 2 ^ 64) div unat AcpiTicksDelta"
  unfolding TSCFrequencyFromTicks_def DivU64x32_unat MultU64x32_unat
  by (simp add: V_ACPI_TMR_FREQUENCY_def)

text \<open>
  Where the product of the counter delta and 3,579,545 is below \<open>2^64\<close> (counter deltas
  up to 5,153,376,776,576), the result is the quotient, rounded toward zero, of that
  product by the measured tick delta; so it is for 3,000,000,000 counter ticks over
  357,954 timer ticks.
\<close>

lemma TSCFrequencyFromTicks_without_wrap:
  assumes "unat (Tsc1 - Tsc0) * 3579545 < 2 ^ 64"
  shows "unat (TSCFrequencyFromTicks Tsc0 Tsc1 AcpiTicksDelta)
           = unat (Tsc1 - Tsc0) * 3579545 div unat AcpiTicksDelta"
  using assms by (simp add: TSCFrequencyFromTicks_unat)

lemma TSCFrequencyFromTicks_example:
  "unat (TSCFrequencyFromTicks 0 3000000000 357954) = 3000000000 * 3579545 div 357954"
  using TSCFrequencyFromTicks_without_wrap [of 3000000000 0 357954] by simp

text \<open>
  C2. The claim: the frequency is the quotient, rounded toward zero, of the counter
  delta times 3,579,545 by the measured tick delta, with no intermediate overflow for
  counter deltas up to the full 64-bit range. The code forms the product in 64 bits
  (\<^verbatim>\<open>MultU64x32\<close>), where lines 313 and 347 of the same file use the widening
  \<^verbatim>\<open>MultThenDivU64x64x32\<close>: for a counter delta of 6,000,000,000,000 over 357,954
  timer ticks it returns 8,466,244,060,103, and the quotient is 60,000,083,809,651,
  which fits in 64 bits.
\<close>

theorem C2_product_wraps_at_64_bits:
  "unat (TSCFrequencyFromTicks 0 6000000000000 357954) = 8466244060103
   \<and> 6000000000000 * 3579545 div 357954 = (60000083809651 :: nat)
   \<and> (60000083809651 :: nat) < 2 ^ 64
   \<and> unat (TSCFrequencyFromTicks 0 6000000000000 357954)
       \<noteq> 6000000000000 * 3579545 div 357954"
  by (simp add: TSCFrequencyFromTicks_unat)

section \<open>The PM timer locator\<close>

text \<open>
  C10. The address that the locator returns is the same whether the slot for the tag
  is supplied or \<^verbatim>\<open>NULL\<close>; with \<^verbatim>\<open>NULL\<close> no tag is written.
\<close>

theorem C10_address_independent_of_Type:
  "fst (InternalGetPmTimerAddr k h True) = fst (InternalGetPmTimerAddr k h False)
   \<and> snd (InternalGetPmTimerAddr k h False) = None"
  by (simp add: InternalGetPmTimerAddr_def Let_def)

text \<open>
  C5, the claim as stated fails: on an Intel chipset whose LPC bridge has ACPI I/O
  space disabled and which has no PMC function, with an Intel processor, no path
  yields an address, and the tag is \<open>''Unknown INTEL''\<close>, not \<open>''Failure''\<close>.
\<close>

theorem C5_not_found_tag_is_not_always_Failure:
  "fst (InternalGetPmTimerAddr reference_platform hw_unknown_intel True) = 0 \<and>
   snd (InternalGetPmTimerAddr reference_platform hw_unknown_intel True) = Some ''Unknown INTEL'' \<and>
   snd (InternalGetPmTimerAddr reference_platform hw_unknown_intel True) \<noteq> Some ''Failure''"
  by (simp add: InternalGetPmTimerAddr_def reference_platform_def hw_unknown_intel_def
      sample_hw_def cpuid_of_def CPUID_SIGNATURE_def)

text \<open>
  C5, amended: when no discovery path succeeds (the vendor ID at the LPC bridge is not
  recognized, or it is and neither the LPC bridge nor the PMC has a usable register
  layout; and the processor is not of the alternate vendor, or it is and the MMIO
  window reads as zero), the locator returns address 0, and the tag written to a
  supplied slot names the last path probed: \<open>''AMD''\<close> for a processor of the alternate
  vendor, else \<open>''Failure''\<close> when the chipset vendor is not recognized, else
  \<open>''Invalid INTEL PMC''\<close> when the PMC is present and \<open>''Unknown INTEL''\<close> when it is
  not.
\<close>

theorem C5_not_found_address_and_tag:
  assumes "PciRead16 h (PCI_ICH_LPC_ADDRESS k 0) = V_ICH_PCI_VENDOR_ID k \<longrightarrow>
             (PciRead8 h (PCI_ICH_LPC_ADDRESS k (R_ICH_LPC_ACPI_CNTL k))
                AND B_ICH_LPC_ACPI_CNTL_ACPI_EN k) = 0
           \<and> (PciRead16 h (PCI_ICH_PMC_ADDRESS k 0) = V_ICH_PCI_VENDOR_ID k \<longrightarrow>
                 (PciRead8 h (PCI_ICH_PMC_ADDRESS k (R_ICH_PMC_ACPI_CNTL k))
                    AND B_ICH_PMC_ACPI_CNTL_ACPI_EN k) = 0
               \<and> (PciRead16 h (PCI_ICH_PMC_ADDRESS k (R_ICH_PMC_BAR2_BASE k))
                    AND B_ICH_PMC_BAR2_BASE_BAR_EN k) = 0)"
    and "Ebx (AsmCpuid h CPUID_SIGNATURE) = CPUID_VENDOR_AMD k \<longrightarrow>
           MmioRead32 h (R_AMD_ACPI_MMIO_BASE k + R_AMD_ACPI_MMIO_PMIO_BASE k
                           + R_AMD_ACPI_PM_TMR_BLOCK k) = 0"
  shows "InternalGetPmTimerAddr k h Type =
           (0, if \<not> Type then None
               else if Ebx (AsmCpuid h CPUID_SIGNATURE) = CPUID_VENDOR_AMD k then Some ''AMD''
               else if PciRead16 h (PCI_ICH_LPC_ADDRESS k 0) \<noteq> V_ICH_PCI_VENDOR_ID k
                 then Some ''Failure''
               else if PciRead16 h (PCI_ICH_PMC_ADDRESS k 0) = V_ICH_PCI_VENDOR_ID k
                 then Some ''Invalid INTEL PMC''
               else Some ''Unknown INTEL'')"
  using assms by (simp add: InternalGetPmTimerAddr_def Let_def)

theorem C5_not_found_address_and_tag_witness:
  "InternalGetPmTimerAddr reference_platform hw_unknown_intel True = (0, Some ''Unknown INTEL'')
   \<and> InternalGetPmTimerAddr reference_platform hw_none True = (0, Some ''Failure'')"
proof -
  have "InternalGetPmTimerAddr reference_platform hw_unknown_intel True = (0, Some ''Unknown INTEL'')"
    using C5_not_found_address_and_tag [of hw_unknown_intel reference_platform True]
    by (simp add: reference_platform_def hw_unknown_intel_def sample_hw_def cpuid_of_def
        CPUID_SIGNATURE_def)
  moreover have "InternalGetPmTimerAddr reference_platform hw_none True = (0, Some ''Failure'')"
    using C5_not_found_address_and_tag [of hw_none reference_platform True]
    by (simp add: reference_platform_def hw_none_def sample_hw_def cpuid_of_def
        CPUID_SIGNATURE_def)
  ultimately show ?thesis by simp
qed

text \<open>
  C9, the claim as stated fails in the name of the tag only: with both the LPC bridge
  and the PMC enabled, the locator returns the LPC address \<open>0x408\<close> (not the PMC's
  \<open>0x1808\<close>), and the tag of the legacy path is the string \<open>''LPC''\<close>, not \<open>''legacy''\<close>.
\<close>

theorem C9_legacy_tag_is_LPC:
  "InternalGetPmTimerAddr reference_platform hw_lpc_and_pmc True = (0x408, Some ''LPC'') \<and>
   snd (InternalGetPmTimerAddr reference_platform hw_lpc_and_pmc True) \<noteq> Some ''legacy''"
  by (simp add: InternalGetPmTimerAddr_def reference_platform_def hw_lpc_and_pmc_def
      sample_hw_def cpuid_of_def CPUID_SIGNATURE_def)

text \<open>
  C9, amended: when the vendor ID at the LPC bridge is recognized and the ACPI-enable
  bit of its control register is set, the locator returns the address computed from the
  LPC bridge's base-address register and the tag \<open>''LPC''\<close>, whatever the PMC function
  reports (the PM1 timer's offset in the ACPI block being non-zero).
\<close>

theorem C9_legacy_path_has_priority:
  assumes "PciRead16 h (PCI_ICH_LPC_ADDRESS k 0) = V_ICH_PCI_VENDOR_ID k"
    and "(PciRead8 h (PCI_ICH_LPC_ADDRESS k (R_ICH_LPC_ACPI_CNTL k))
            AND B_ICH_LPC_ACPI_CNTL_ACPI_EN k) \<noteq> 0"
    and "R_ACPI_PM1_TMR k \<noteq> 0"
  shows "InternalGetPmTimerAddr k h True =
           (ucast (PciRead16 h (PCI_ICH_LPC_ADDRESS k (R_ICH_LPC_ACPI_BASE k))
                     AND B_ICH_LPC_ACPI_BASE_BAR k) + ucast (R_ACPI_PM1_TMR k),
            Some ''LPC'')"
  using assms base_plus_offset_nonzero [OF assms(3)]
  by (simp add: InternalGetPmTimerAddr_def Let_def)

theorem C9_legacy_path_has_priority_witness:
  "InternalGetPmTimerAddr reference_platform hw_lpc_and_pmc True = (0x408, Some ''LPC'')
   \<and> PciRead16 hw_lpc_and_pmc (PCI_ICH_PMC_ADDRESS reference_platform 0)
       = V_ICH_PCI_VENDOR_ID reference_platform
   \<and> (PciRead8 hw_lpc_and_pmc (PCI_ICH_PMC_ADDRESS reference_platform
          (R_ICH_PMC_ACPI_CNTL reference_platform))
        AND B_ICH_PMC_ACPI_CNTL_ACPI_EN reference_platform) \<noteq> 0"
  using C9_legacy_path_has_priority [of hw_lpc_and_pmc reference_platform]
  by (simp add: reference_platform_def hw_lpc_and_pmc_def sample_hw_def)

section \<open>The calibrator and its cache\<close>

lemma calibrator_cached:
  assumes "TSCFrequency s \<noteq> 0"
  shows "InternalCalculateTSCFromPMTimer k h False s = Some (TSCFrequency s, s)"
  using assms by (simp add: InternalCalculateTSCFromPMTimer_def)

text \<open>
  A call returns the value it leaves in the cache, and changes neither of the two
  static variables of the resolver.
\<close>

lemma calibrator_result:
  assumes "InternalCalculateTSCFromPMTimer k h Recalculate s = Some (f, s')"
  shows "f = TSCFrequency s' \<and> ARTFrequency s' = ARTFrequency s
         \<and> CPUFrequencyFromART s' = CPUFrequencyFromART s"
  using assms
  by (auto simp: InternalCalculateTSCFromPMTimer_def Let_def
      split: if_splits option.splits prod.splits)

text \<open>
  Without a timer, and with a timer that does not advance during the stall, a
  measuring call returns 0 and caches 0.
\<close>

lemma calibrator_no_timer:
  assumes "Recalculate \<or> TSCFrequency s = 0"
    and "fst (InternalGetPmTimerAddr k h False) = 0"
  shows "InternalCalculateTSCFromPMTimer k h Recalculate s = Some (0, s\<lparr>TSCFrequency := 0\<rparr>)"
  using assms by (auto simp: InternalCalculateTSCFromPMTimer_def Let_def)

lemma calibrator_timer_not_advancing:
  assumes "Recalculate \<or> TSCFrequency s = 0"
    and "fst (InternalGetPmTimerAddr k h False) \<noteq> 0"
    and "IoRead32 h (clock s) (fst (InternalGetPmTimerAddr k h False))
           = IoRead32 h (clock s + 2) (fst (InternalGetPmTimerAddr k h False))"
  shows "InternalCalculateTSCFromPMTimer k h Recalculate s
           = Some (0, s\<lparr>TSCFrequency := 0, clock := clock s + 3\<rparr>)"
  using assms by (auto simp: InternalCalculateTSCFromPMTimer_def Let_def)

text \<open>A non-forced call that returns 0 found 0 in the cache.\<close>

lemma calibrator_zero_was_unset:
  assumes "InternalCalculateTSCFromPMTimer k h False s = Some (0, s')"
  shows "TSCFrequency s = 0"
proof (rule ccontr)
  assume "TSCFrequency s \<noteq> 0"
  then have "InternalCalculateTSCFromPMTimer k h False s = Some (TSCFrequency s, s)"
    by (rule calibrator_cached)
  with assms show False using \<open>TSCFrequency s \<noteq> 0\<close> by simp
qed

text \<open>The state matters to a non-forced call only through the cache and the clock.\<close>

lemma calibrator_state_dependence:
  assumes "TSCFrequency s = TSCFrequency u" and "clock s = clock u"
    and "InternalCalculateTSCFromPMTimer k h False s = Some (f, s')"
  shows "\<exists>u'. InternalCalculateTSCFromPMTimer k h False u = Some (f, u')"
  using assms
  by (auto simp: InternalCalculateTSCFromPMTimer_def Let_def
      split: if_splits option.splits prod.splits)

text \<open>
  When the loop ends, the delta has reached the target, so the divisor of line 212 is
  not zero.
\<close>

lemma AcpiTicksLoop_reaches_target:
  assumes "AcpiTicksLoop h TimerAddr AcpiTick0 AcpiTicksTarget t = Some r"
  shows "AcpiTicksTarget \<le> fst r \<and> t < snd r"
proof (rule AcpiTicksLoop.raw_induct [where
      P = "\<lambda>h TimerAddr AcpiTick0 AcpiTicksTarget t r. AcpiTicksTarget \<le> fst r \<and> t < snd r",
      OF _ assms])
  fix loop h' Port Tick0 Target n y
  assume IH: "\<And>Port Tick0 Target n b y.
                loop Port Tick0 Target n b = Some y \<Longrightarrow> n \<le> fst y \<and> b < snd y"
    and step: "(let AcpiTick1 = IoRead32 h' n Port;
                    AcpiTicksDelta = AcpiTicksPassed Tick0 AcpiTick1
                in if AcpiTicksDelta < Target then loop h' Port Tick0 Target (Suc n)
                   else Some (AcpiTicksDelta, Suc n)) = Some y"
  show "Target \<le> fst y \<and> n < snd y"
  proof (cases "AcpiTicksPassed Tick0 (IoRead32 h' n Port) < Target")
    case True
    with step have "loop h' Port Tick0 Target (Suc n) = Some y"
      by (simp add: Let_def)
    from IH [OF this] show ?thesis by simp
  next
    case False
    with step have "y = (AcpiTicksPassed Tick0 (IoRead32 h' n Port), Suc n)"
      by (simp add: Let_def)
    with False show ?thesis by simp
  qed
qed

lemma calibrator_divisor_nonzero:
  assumes "AcpiTicksLoop h TimerAddr AcpiTick0 (V_ACPI_TMR_FREQUENCY div 10) t
             = Some (AcpiTicksDelta, t')"
  shows "AcpiTicksDelta \<noteq> 0"
proof -
  have "V_ACPI_TMR_FREQUENCY div 10 \<le> AcpiTicksDelta"
    using AcpiTicksLoop_reaches_target [OF assms] by simp
  moreover have "V_ACPI_TMR_FREQUENCY div 10 = (357954 :: u32)"
    by (simp add: V_ACPI_TMR_FREQUENCY_def)
  ultimately have "(357954 :: u32) \<le> AcpiTicksDelta" by simp
  then show ?thesis by auto
qed

text \<open>The calibrator on the sample hardware: the loop runs twice.\<close>

lemma locator_hw_measured:
  "InternalGetPmTimerAddr reference_platform (hw_measured b) False = (0x408, None)"
  by (simp add: InternalGetPmTimerAddr_def reference_platform_def hw_measured_def hw_intel_def
      sample_hw_def cpuid_of_def CPUID_SIGNATURE_def)

lemma loop_hw_measured:
  "AcpiTicksLoop (hw_measured b) 0x408 357954 357954 5 = Some (357954, 7)"
  by (simp add: AcpiTicksLoop.simps hw_measured_def hw_intel_def sample_hw_def AcpiTicksPassed_def)

lemma calibrator_hw_measured:
  "InternalCalculateTSCFromPMTimer reference_platform (hw_measured b) Recalculate initial_state
     = Some (3000004190, initial_state\<lparr>TSCFrequency := 3000004190, clock := 8\<rparr>)"
proof -
  have io: "IoRead32 (hw_measured b) t 0x408 = 119318 * word_of_nat t" for t
    by (simp add: hw_measured_def hw_intel_def sample_hw_def)
  have tsc: "AsmReadTsc (hw_measured b) t = 100000000 * word_of_nat t" for t
    by (simp add: hw_measured_def hw_intel_def sample_hw_def)
  show ?thesis
    by (simp add: InternalCalculateTSCFromPMTimer_def locator_hw_measured initial_state_def
        Let_def io tsc V_ACPI_TMR_FREQUENCY_def loop_hw_measured TSCFrequencyFromTicks_def
        MultU64x32_def DivU64x32_def)
qed

lemma locator_hw_none:
  "InternalGetPmTimerAddr reference_platform hw_none False = (0, None)"
  by (simp add: InternalGetPmTimerAddr_def reference_platform_def hw_none_def
      sample_hw_def cpuid_of_def CPUID_SIGNATURE_def)

lemma calibrator_hw_none:
  "TSCFrequency s = 0 \<Longrightarrow>
     InternalCalculateTSCFromPMTimer reference_platform hw_none False s = Some (0, s)"
  by (simp add: InternalCalculateTSCFromPMTimer_def locator_hw_none Let_def)









section \<open>The crystal-clock resolver\<close>

subsection \<open>Facts about the sample hardware\<close>

lemma CpuModel_skylake: "CpuModel 0x000506E3 = 0x5E"
  by (simp add: CpuModel_def Bits_Model_def Bits_ExtendedModelId_def)

lemma CpuModel_icelake: "CpuModel 0x000706E5 = 0x7E"
  by (simp add: CpuModel_def Bits_Model_def Bits_ExtendedModelId_def)

lemma initial_fields:
  "TSCFrequency initial_state = 0" "ARTFrequency initial_state = 0"
  "CPUFrequencyFromART initial_state = 0" "clock initial_state = 0"
  by (simp_all add: initial_state_def)

lemma reference_platform_cpu:
  "CPUID_VENDOR_INTEL reference_platform = 0x756E6547"
  "CPU_MODEL_SKYLAKE reference_platform = 0x4E"
  "CPU_MODEL_SKYLAKE_DT reference_platform = 0x5E"
  "CPU_MODEL_KABYLAKE reference_platform = 0x8E"
  "CPU_MODEL_KABYLAKE_DT reference_platform = 0x9E"
  "CPU_MODEL_DENVERTON reference_platform = 0x5F"
  "CPU_MODEL_GOLDMONT reference_platform = 0x5C"
  "DebugAssertEnabled reference_platform = True"
  by (simp_all add: reference_platform_def)

lemma cpuid_hw_intel:
  "AsmCpuid (hw_intel MaxId VerEax Den Num Crystal BaseMHz) 0
     = cpuid_of MaxId 0x756E6547 0x6C65746E 0x49656E69"
  "AsmCpuid (hw_intel MaxId VerEax Den Num Crystal BaseMHz) 1
     = cpuid_of VerEax 0 0 0"
  "AsmCpuid (hw_intel MaxId VerEax Den Num Crystal BaseMHz) 0x15
     = cpuid_of Den Num Crystal 0"
  "AsmCpuid (hw_intel MaxId VerEax Den Num Crystal BaseMHz) 0x16
     = cpuid_of BaseMHz 0 0 0"
  by (simp_all add: hw_intel_def sample_hw_def)

lemmas cpuid_leaves = CPUID_SIGNATURE_def CPUID_VERSION_INFO_def
  CPUID_TIME_STAMP_COUNTER_def CPUID_PROCESSOR_FREQUENCY_def

lemmas cpuid_hw_measured = cpuid_hw_intel [of "0x16" "0x000706E5" 2 250 0, folded hw_measured_def]

lemma unknown_model_0x7E:
  "KnownModelARTFrequency reference_platform (CpuModel 0x000706E5) 0 = 0"
  by (simp add: KnownModelARTFrequency_def CpuModel_icelake reference_platform_cpu)

subsection \<open>The two static variables\<close>

lemma ratio_block_ART_nonzero:
  assumes "ARTFrequencyFromRatio k h Recalculate MaxId Den Num s2 = Some s7"
  shows "ARTFrequency s7 \<noteq> 0"
  using assms
  by (auto simp: ARTFrequencyFromRatio_def ASSERT_def Let_def DEFAULT_ART_CLOCK_SOURCE_def
      CLIENT_ART_CLOCK_SOURCE_def split: option.splits if_splits prod.splits)

lemma resolver_result_fields:
  assumes "InternalCalcluateARTFrequencyIntel k h Recalculate s = Some ((ART, CPU), s')"
  shows "ARTFrequency s' = ART \<and> CPUFrequencyFromART s' = CPU"
  using assms
  by (auto simp: InternalCalcluateARTFrequencyIntel_def Let_def split: option.splits if_splits)

lemma determine_keeps_invariant:
  assumes "DetermineARTFrequency k h Recalculate s1 = Some s'"
    and "CPUFrequencyFromART s1 \<noteq> 0 \<longrightarrow> ARTFrequency s1 \<noteq> 0"
  shows "CPUFrequencyFromART s' \<noteq> 0 \<longrightarrow> ARTFrequency s' \<noteq> 0"
  using assms ratio_block_ART_nonzero
  by (auto simp: DetermineARTFrequency_def Let_def split: if_splits)

lemma leaf_0x16_implies_0x15:
  "CPUID_PROCESSOR_FREQUENCY \<le> MaxId \<Longrightarrow> CPUID_TIME_STAMP_COUNTER \<le> MaxId"
proof -
  assume a: "CPUID_PROCESSOR_FREQUENCY \<le> MaxId"
  have "CPUID_TIME_STAMP_COUNTER \<le> CPUID_PROCESSOR_FREQUENCY"
    by (simp add: CPUID_TIME_STAMP_COUNTER_def CPUID_PROCESSOR_FREQUENCY_def)
  then show ?thesis using a by (rule order_trans)
qed

lemma base_frequency_Hz_nonzero:
  assumes "Bits_ProcessorBaseFrequency x \<noteq> 0"
  shows "MultU64x32 (ucast (Bits_ProcessorBaseFrequency x)) 1000000 \<noteq> 0"
proof -
  let ?b = "Bits_ProcessorBaseFrequency x"
  have "?b \<le> 0xFFFF" unfolding Bits_ProcessorBaseFrequency_def by (rule word_and_le1)
  then have le: "unat ?b \<le> 65535" by (simp add: word_le_nat_alt)
  have pos: "0 < unat ?b" using assms by (simp add: unat_gt_0)
  have "unat (MultU64x32 (ucast ?b) 1000000) = unat ?b * 1000000 mod 2 ^ 64"
    by (simp add: MultU64x32_unat unat_ucast_u32_u64)
  also have "\<dots> = unat ?b * 1000000" using le by simp
  finally have "unat (MultU64x32 (ucast ?b) 1000000) \<noteq> 0" using pos by simp
  then show ?thesis by (metis unat_0)
qed

lemma state_ARTFrequency_same: "ARTFrequency s = a \<Longrightarrow> s\<lparr>ARTFrequency := a\<rparr> = s"
  by simp

text \<open>
  The path of lines 311--334: the crystal frequency is not reported and not in the table,
  the ratio and the frequency leaf are there, and the calibration gives a non-zero
  crystal frequency \<open>ART\<close>.
\<close>

lemma determine_from_TSC:
  fixes k h Recalculate s1
  defines "Den \<equiv> Eax (AsmCpuid h CPUID_TIME_STAMP_COUNTER)"
    and "Num \<equiv> Ebx (AsmCpuid h CPUID_TIME_STAMP_COUNTER)"
    and "Base \<equiv> Bits_ProcessorBaseFrequency (Eax (AsmCpuid h CPUID_PROCESSOR_FREQUENCY))"
  assumes unset: "ARTFrequency s1 = 0"
    and intel: "Ebx (AsmCpuid h CPUID_SIGNATURE) = CPUID_VENDOR_INTEL k"
    and maxid: "CPUID_PROCESSOR_FREQUENCY \<le> Eax (AsmCpuid h CPUID_SIGNATURE)"
    and ecx: "Ecx (AsmCpuid h CPUID_TIME_STAMP_COUNTER) = 0"
    and model: "KnownModelARTFrequency k (CpuModel (Eax (AsmCpuid h CPUID_VERSION_INFO))) 0 = 0"
    and ratio: "0 < Den \<and> 0 < Num"
    and cal: "InternalCalculateTSCFromPMTimer k h Recalculate s1 = Some (CPUFrequencyFromTSC, s3)"
    and art: "ART = MultThenDivU64x64x32 CPUFrequencyFromTSC (ucast Den) Num" "ART \<noteq> 0"
  shows "DetermineARTFrequency k h Recalculate s1 =
     (let s4 = s3\<lparr>ARTFrequency := ART,
                   CPUFrequencyFromART := MultU64x32 (ucast Base) 1000000\<rparr>;
          s7 = (if Base = 0
                then s4\<lparr>CPUFrequencyFromART := MultThenDivU64x64x32 ART (ucast Num) Den\<rparr>
                else s4)
      in ASSERT k (0 < CPUFrequencyFromART s7) (Some s7))"
proof -
  have m15: "CPUID_TIME_STAMP_COUNTER \<le> Eax (AsmCpuid h CPUID_SIGNATURE)"
    using maxid by (rule leaf_0x16_implies_0x15)
  have nz: "MultU64x32 (ucast Base) 1000000 \<noteq> 0" if "Base \<noteq> 0"
    using that unfolding Base_def by (rule base_frequency_Hz_nonzero)
  have z: "MultU64x32 (ucast Base) 1000000 = 0" if "Base = 0"
    using that by (simp add: MultU64x32_def)
  have block: "ARTFrequencyFromRatio k h Recalculate (Eax (AsmCpuid h CPUID_SIGNATURE)) Den Num s1
     = (let s4 = s3\<lparr>ARTFrequency := ART,
                     CPUFrequencyFromART := MultU64x32 (ucast Base) 1000000\<rparr>;
            s7 = (if Base = 0
                  then s4\<lparr>CPUFrequencyFromART := MultThenDivU64x64x32 ART (ucast Num) Den\<rparr>
                  else s4)
        in ASSERT k (0 < CPUFrequencyFromART s7) (Some s7))"
    using unset maxid cal art nz z
    by (simp add: ARTFrequencyFromRatio_def Let_def ASSERT_def word_gt_0 Base_def)
  show ?thesis
    using unset intel m15 ecx model ratio
    by (simp add: DetermineARTFrequency_def Let_def Den_def Num_def state_ARTFrequency_same
        block [unfolded Den_def Num_def])
qed

lemma unknown_model_iff:
  "KnownModelARTFrequency k Model 0 = 0 \<longleftrightarrow>
     Model \<notin> {CPU_MODEL_SKYLAKE k, CPU_MODEL_SKYLAKE_DT k, CPU_MODEL_KABYLAKE k,
                CPU_MODEL_KABYLAKE_DT k, CPU_MODEL_DENVERTON k, CPU_MODEL_GOLDMONT k}"
  by (simp add: KnownModelARTFrequency_def CLIENT_ART_CLOCK_SOURCE_def
      SERVER_ART_CLOCK_SOURCE_def ATOM_ART_CLOCK_SOURCE_def)

lemma skylake_model:
  "Model = CPU_MODEL_SKYLAKE k \<or> Model = CPU_MODEL_SKYLAKE_DT k \<Longrightarrow>
     KnownModelARTFrequency k Model a = 24000000"
  by (auto simp: KnownModelARTFrequency_def CLIENT_ART_CLOCK_SOURCE_def)



text \<open>
  The ratio block in full, for a crystal frequency that is known and for one that is
  not, when no base frequency is cached.
\<close>

lemma ratio_block_known_exact:
  assumes "ARTFrequency s2 \<noteq> 0" and "CPUFrequencyFromART s2 = 0"
  shows "ARTFrequencyFromRatio k h Recalculate MaxId Den Num s2 =
           ASSERT k (0 < MultThenDivU64x64x32 (ARTFrequency s2) (ucast Num) Den)
             (Some (s2\<lparr>CPUFrequencyFromART :=
                          MultThenDivU64x64x32 (ARTFrequency s2) (ucast Num) Den\<rparr>))"
  using assms by (simp add: ARTFrequencyFromRatio_def ASSERT_def Let_def word_gt_0)

lemma ratio_block_unknown_exact:
  assumes "ARTFrequency s2 = 0" and "CPUFrequencyFromART s2 = 0"
  shows "ARTFrequencyFromRatio k h Recalculate MaxId Den Num s2 =
    (if \<not> CPUID_PROCESSOR_FREQUENCY \<le> MaxId then
       ASSERT k (0 < MultThenDivU64x64x32 24000000 (ucast Num) Den)
         (Some (s2\<lparr>ARTFrequency := 24000000,
                   CPUFrequencyFromART := MultThenDivU64x64x32 24000000 (ucast Num) Den\<rparr>))
     else
       (case InternalCalculateTSCFromPMTimer k h Recalculate s2 of
          None \<Rightarrow> None
        | Some (CPUFrequencyFromTSC, s3) \<Rightarrow>
            (let Derived = MultThenDivU64x64x32 CPUFrequencyFromTSC (ucast Den) Num;
                 Base = Bits_ProcessorBaseFrequency (Eax (AsmCpuid h CPUID_PROCESSOR_FREQUENCY))
             in if Derived = 0 then
                  ASSERT k (0 < MultThenDivU64x64x32 24000000 (ucast Num) Den)
                    (Some (s3\<lparr>ARTFrequency := 24000000,
                              CPUFrequencyFromART :=
                                MultThenDivU64x64x32 24000000 (ucast Num) Den\<rparr>))
                else if Base \<noteq> 0 then
                  Some (s3\<lparr>ARTFrequency := Derived,
                          CPUFrequencyFromART := MultU64x32 (ucast Base) 1000000\<rparr>)
                else
                  ASSERT k (0 < MultThenDivU64x64x32 Derived (ucast Num) Den)
                    (Some (s3\<lparr>ARTFrequency := Derived,
                              CPUFrequencyFromART :=
                                MultThenDivU64x64x32 Derived (ucast Num) Den\<rparr>)))))"
proof (cases "CPUID_PROCESSOR_FREQUENCY \<le> MaxId")
  case False
  then show ?thesis
    using assms
    by (simp add: ARTFrequencyFromRatio_def ASSERT_def Let_def word_gt_0
        DEFAULT_ART_CLOCK_SOURCE_def CLIENT_ART_CLOCK_SOURCE_def)
next
  case True
  show ?thesis
  proof (cases "InternalCalculateTSCFromPMTimer k h Recalculate s2")
    case None
    with True assms show ?thesis by (simp add: ARTFrequencyFromRatio_def)
  next
    case (Some r)
    obtain tsc s3 where r: "r = (tsc, s3)" by (cases r) auto
    have s3: "ARTFrequency s3 = 0" "CPUFrequencyFromART s3 = 0"
      using calibrator_result [OF Some [unfolded r]] assms by simp_all
    have nz: "MultU64x32 (ucast (Bits_ProcessorBaseFrequency x)) 1000000 \<noteq> 0"
      if "Bits_ProcessorBaseFrequency x \<noteq> 0" for x
      using that by (rule base_frequency_Hz_nonzero)
    have z: "MultU64x32 (ucast (Bits_ProcessorBaseFrequency x)) 1000000 = 0"
      if "Bits_ProcessorBaseFrequency x = 0" for x
      using that by (simp add: MultU64x32_def)
    show ?thesis
      using True assms Some r s3 nz z
      by (simp add: ARTFrequencyFromRatio_def ASSERT_def Let_def word_gt_0
          DEFAULT_ART_CLOCK_SOURCE_def CLIENT_ART_CLOCK_SOURCE_def)
  qed
qed

lemma resolver_keeps_invariant:
  assumes "InternalCalcluateARTFrequencyIntel k h Recalculate s = Some ((ART, CPU), s')"
    and "CPUFrequencyFromART s \<noteq> 0 \<longrightarrow> ARTFrequency s \<noteq> 0"
  shows "CPUFrequencyFromART s' \<noteq> 0 \<longrightarrow> ARTFrequency s' \<noteq> 0"
proof -
  let ?s1 = "if Recalculate then s\<lparr>ARTFrequency := 0, CPUFrequencyFromART := 0\<rparr> else s"
  have inv1: "CPUFrequencyFromART ?s1 \<noteq> 0 \<longrightarrow> ARTFrequency ?s1 \<noteq> 0"
    using assms(2) by simp
  have run: "DetermineARTFrequency k h Recalculate ?s1 = Some s'"
    using assms(1)
    by (auto simp: InternalCalcluateARTFrequencyIntel_def Let_def split: option.splits)
  from determine_keeps_invariant [OF run inv1] show ?thesis .
qed

subsection \<open>Runs on the sample hardware\<close>

lemma resolver_hw_measured_0:
  "InternalCalcluateARTFrequencyIntel reference_platform (hw_measured 0) False initial_state
     = Some ((24000033, 3000004125),
             initial_state\<lparr>TSCFrequency := 3000004190, clock := 8, ARTFrequency := 24000033,
               CPUFrequencyFromART := 3000004125\<rparr>)"
  by (simp add: InternalCalcluateARTFrequencyIntel_def DetermineARTFrequency_def
      ARTFrequencyFromRatio_def Let_def ASSERT_def cpuid_hw_measured cpuid_of_def
      initial_fields reference_platform_cpu unknown_model_0x7E state_ARTFrequency_same
      cpuid_leaves calibrator_hw_measured
      MultThenDivU64x64x32_def MultU64x32_def Bits_ProcessorBaseFrequency_def)

lemma resolver_hw_measured_3000:
  "InternalCalcluateARTFrequencyIntel reference_platform (hw_measured 3000) False initial_state
     = Some ((24000033, 3000000000),
             initial_state\<lparr>TSCFrequency := 3000004190, clock := 8, ARTFrequency := 24000033,
               CPUFrequencyFromART := 3000000000\<rparr>)"
  by (simp add: InternalCalcluateARTFrequencyIntel_def DetermineARTFrequency_def
      ARTFrequencyFromRatio_def Let_def ASSERT_def cpuid_hw_measured cpuid_of_def
      initial_fields reference_platform_cpu unknown_model_0x7E state_ARTFrequency_same
      cpuid_leaves calibrator_hw_measured
      MultThenDivU64x64x32_def MultU64x32_def Bits_ProcessorBaseFrequency_def)

lemma cpuid_hw_none:
  "AsmCpuid hw_none 0 = cpuid_of 0x01 0x746E6543 0x736C7561 0x48727561"
  by (simp add: hw_none_def sample_hw_def)

lemma resolver_hw_none:
  "InternalCalcluateARTFrequencyIntel reference_platform hw_none False initial_state
     = Some ((0, 0), initial_state)"
  by (simp add: InternalCalcluateARTFrequencyIntel_def DetermineARTFrequency_def Let_def
      cpuid_leaves cpuid_hw_none cpuid_of_def initial_fields reference_platform_cpu)

lemmas cpuid_hw_skylake_no_ratio =
  cpuid_hw_intel [of "0x16" "0x000506E3" 0 0 0 0, folded hw_skylake_no_ratio_def]


lemmas cpuid_hw_skylake = cpuid_hw_intel [of "0x16" "0x000506E3" 2 334 0 4000, folded hw_skylake_def]

lemmas cpuid_hw_no_frequency_leaf = cpuid_hw_intel [of "0x15" "0x000706E5" 2 250 0 0]

lemmas cpuid_hw_unknown_no_ratio = cpuid_hw_intel [of "0x16" "0x000706E5" 0 0 0 0]

subsection \<open>The returned pair\<close>




text \<open>The invariant holds at module entry, and the calibrator keeps it.\<close>

lemma initial_state_invariant:
  "CPUFrequencyFromART initial_state \<noteq> 0 \<longrightarrow> ARTFrequency initial_state \<noteq> 0"
  by (simp add: initial_fields)

lemma calibrator_keeps_invariant:
  assumes "InternalCalculateTSCFromPMTimer k h Recalculate s = Some (f, s')"
    and "CPUFrequencyFromART s \<noteq> 0 \<longrightarrow> ARTFrequency s \<noteq> 0"
  shows "CPUFrequencyFromART s' \<noteq> 0 \<longrightarrow> ARTFrequency s' \<noteq> 0"
  using calibrator_result [OF assms(1)] assms(2) by simp

lemma calibrator_keeps_pair:
  assumes "InternalCalculateTSCFromPMTimer k h Recalculate s = Some (f, s')"
    and "DebugAssertEnabled k \<and> ARTFrequency s \<noteq> 0 \<and> 0 < Den \<and> 0 < Num
           \<longrightarrow> CPUFrequencyFromART s \<noteq> 0"
  shows "DebugAssertEnabled k \<and> ARTFrequency s' \<noteq> 0 \<and> 0 < Den \<and> 0 < Num
           \<longrightarrow> CPUFrequencyFromART s' \<noteq> 0"
  using calibrator_result [OF assms(1)] assms(2) by simp

lemma orchestrator_keeps_invariant:
  assumes "OcGetTSCFrequency k h s = Some (f, s')"
    and "CPUFrequencyFromART s \<noteq> 0 \<longrightarrow> ARTFrequency s \<noteq> 0"
  shows "CPUFrequencyFromART s' \<noteq> 0 \<longrightarrow> ARTFrequency s' \<noteq> 0"
proof (cases "InternalCalcluateARTFrequencyIntel k h False s")
  case None
  with assms(1) show ?thesis by (simp add: OcGetTSCFrequency_def)
next
  case (Some r)
  obtain ART CPU s1 where r: "r = ((ART, CPU), s1)" by (cases r) auto
  have inv1: "CPUFrequencyFromART s1 \<noteq> 0 \<longrightarrow> ARTFrequency s1 \<noteq> 0"
    using resolver_keeps_invariant [OF Some [unfolded r] assms(2)] .
  show ?thesis
  proof (cases "CPU = 0")
    case True
    with assms(1) Some r have "InternalCalculateTSCFromPMTimer k h False s1 = Some (f, s')"
      by (simp add: OcGetTSCFrequency_def)
    from calibrator_keeps_invariant [OF this inv1] show ?thesis .
  next
    case False
    with assms(1) Some r have "s' = s1" by (simp add: OcGetTSCFrequency_def)
    with inv1 show ?thesis by simp
  qed
qed

subsection \<open>The base frequency on the path through the calibrator\<close>

text \<open>
  C6, the claim as stated fails: when the frequency leaf is readable and reports a base
  frequency of 0, the base frequency returned is the one computed from the crystal
  frequency and the ratio (here 3000004125), not the reported value times 1,000,000.
\<close>

theorem C6_leaf_reports_zero_base:
  "InternalCalcluateARTFrequencyIntel reference_platform (hw_measured 0) False initial_state
     = Some ((24000033, 3000004125),
             initial_state\<lparr>TSCFrequency := 3000004190, clock := 8, ARTFrequency := 24000033,
               CPUFrequencyFromART := 3000004125\<rparr>)
   \<and> MultU64x32 (ucast (Bits_ProcessorBaseFrequency
                          (Eax (AsmCpuid (hw_measured 0) CPUID_PROCESSOR_FREQUENCY)))) 1000000
       \<noteq> 3000004125"
  by (simp add: resolver_hw_measured_0 cpuid_leaves cpuid_hw_measured cpuid_of_def
      Bits_ProcessorBaseFrequency_def MultU64x32_def)

text \<open>
  C6, amended: whenever the resolver derives a non-zero crystal frequency \<open>ART\<close> from the
  calibrated counter frequency (no crystal frequency reported, model not in the table,
  ratio and frequency leaf present), the base frequency it returns is the base
  frequency reported by the frequency leaf times 1,000,000 if that field is non-zero;
  if the field is zero, the base frequency is \<open>ART\<close> times numerator by denominator
  (and an enabled assertion stops the call when that quotient is zero).
\<close>

theorem C6_base_from_frequency_leaf:
  fixes k h Recalculate s
  defines "s1 \<equiv> (if Recalculate then s\<lparr>ARTFrequency := 0, CPUFrequencyFromART := 0\<rparr> else s)"
    and "Den \<equiv> Eax (AsmCpuid h CPUID_TIME_STAMP_COUNTER)"
    and "Num \<equiv> Ebx (AsmCpuid h CPUID_TIME_STAMP_COUNTER)"
    and "Base \<equiv> Bits_ProcessorBaseFrequency (Eax (AsmCpuid h CPUID_PROCESSOR_FREQUENCY))"
  assumes unset: "ARTFrequency s1 = 0"
    and intel: "Ebx (AsmCpuid h CPUID_SIGNATURE) = CPUID_VENDOR_INTEL k"
    and maxid: "CPUID_PROCESSOR_FREQUENCY \<le> Eax (AsmCpuid h CPUID_SIGNATURE)"
    and ecx: "Ecx (AsmCpuid h CPUID_TIME_STAMP_COUNTER) = 0"
    and model: "KnownModelARTFrequency k (CpuModel (Eax (AsmCpuid h CPUID_VERSION_INFO))) 0 = 0"
    and ratio: "0 < Den \<and> 0 < Num"
    and cal: "InternalCalculateTSCFromPMTimer k h Recalculate s1 = Some (CPUFrequencyFromTSC, s3)"
    and art: "ART = MultThenDivU64x64x32 CPUFrequencyFromTSC (ucast Den) Num" "ART \<noteq> 0"
  shows "InternalCalcluateARTFrequencyIntel k h Recalculate s =
     (if Base \<noteq> 0
      then Some ((ART, MultU64x32 (ucast Base) 1000000),
                 s3\<lparr>ARTFrequency := ART,
                    CPUFrequencyFromART := MultU64x32 (ucast Base) 1000000\<rparr>)
      else ASSERT k (0 < MultThenDivU64x64x32 ART (ucast Num) Den)
             (Some ((ART, MultThenDivU64x64x32 ART (ucast Num) Den),
                    s3\<lparr>ARTFrequency := ART,
                       CPUFrequencyFromART := MultThenDivU64x64x32 ART (ucast Num) Den\<rparr>)))"
proof -
  have nz: "MultU64x32 (ucast Base) 1000000 \<noteq> 0" if "Base \<noteq> 0"
    using that unfolding Base_def by (rule base_frequency_Hz_nonzero)
  have det: "DetermineARTFrequency k h Recalculate s1 =
     (let s4 = s3\<lparr>ARTFrequency := ART,
                   CPUFrequencyFromART := MultU64x32 (ucast Base) 1000000\<rparr>;
          s7 = (if Base = 0
                then s4\<lparr>CPUFrequencyFromART := MultThenDivU64x64x32 ART (ucast Num) Den\<rparr>
                else s4)
      in ASSERT k (0 < CPUFrequencyFromART s7) (Some s7))"
    unfolding Den_def Num_def Base_def
    using unset intel maxid ecx model ratio [unfolded Den_def Num_def] cal
      art [unfolded Den_def Num_def]
    by (rule determine_from_TSC)
  show ?thesis
    using nz
    by (simp add: InternalCalcluateARTFrequencyIntel_def s1_def [symmetric] det Let_def
        ASSERT_def word_gt_0)
qed

theorem C6_base_from_frequency_leaf_witness:
  "InternalCalcluateARTFrequencyIntel reference_platform (hw_measured 3000) False initial_state
     = Some ((24000033, 3000000000),
             initial_state\<lparr>TSCFrequency := 3000004190, clock := 8, ARTFrequency := 24000033,
               CPUFrequencyFromART := 3000000000\<rparr>)"
  using C6_base_from_frequency_leaf [where k = reference_platform and h = "hw_measured 3000" and Recalculate = False
      and s = initial_state and CPUFrequencyFromTSC = 3000004190
      and ?s3.0 = "initial_state\<lparr>TSCFrequency := 3000004190, clock := 8\<rparr>"
      and ART = 24000033]
    calibrator_hw_measured [of 3000 False]
  by (simp add: cpuid_leaves cpuid_hw_measured cpuid_of_def initial_fields
      reference_platform_cpu unknown_model_0x7E MultThenDivU64x64x32_def MultU64x32_def
      Bits_ProcessorBaseFrequency_def)

subsection \<open>The crystal frequency without a reported value\<close>

text \<open>
  C8, the claim as stated fails: for a model that the table does not name, with the
  ratio leaf and the frequency leaf present, the crystal frequency is the one derived
  from the calibrated counter frequency (here 24000033), not the default 24,000,000.
\<close>

theorem C8_unrecognized_model_not_default:
  "InternalCalcluateARTFrequencyIntel reference_platform (hw_measured 3000) False initial_state
     = Some ((24000033, 3000000000),
             initial_state\<lparr>TSCFrequency := 3000004190, clock := 8, ARTFrequency := 24000033,
               CPUFrequencyFromART := 3000000000\<rparr>)
   \<and> (24000033 :: u64) \<noteq> 24000000
   \<and> Ecx (AsmCpuid (hw_measured 3000) CPUID_TIME_STAMP_COUNTER) = 0
   \<and> 0 < Eax (AsmCpuid (hw_measured 3000) CPUID_TIME_STAMP_COUNTER)
   \<and> 0 < Ebx (AsmCpuid (hw_measured 3000) CPUID_TIME_STAMP_COUNTER)
   \<and> CpuModel (Eax (AsmCpuid (hw_measured 3000) CPUID_VERSION_INFO))
       \<notin> {CPU_MODEL_SKYLAKE reference_platform, CPU_MODEL_SKYLAKE_DT reference_platform,
          CPU_MODEL_KABYLAKE reference_platform, CPU_MODEL_KABYLAKE_DT reference_platform,
          CPU_MODEL_DENVERTON reference_platform, CPU_MODEL_GOLDMONT reference_platform}"
  by (simp add: resolver_hw_measured_3000 cpuid_leaves cpuid_hw_measured cpuid_of_def
      CpuModel_icelake reference_platform_cpu)

text \<open>
  C8, amended: when nothing is cached (or the call is forced), the processor is an
  Intel one with the ratio leaf, and that leaf reports no crystal frequency:
  \<^item> a Skylake model code yields the crystal frequency 24,000,000 of the table: without
    the denominator or the numerator the call returns (24000000, 0), and with them it
    returns 24,000,000 and the base frequency 24,000,000 times numerator by
    denominator (the assertion of line 354 stops the call only when that quotient is
    zero and assertions are enabled);
  \<^item> a model that the table does not name yields 0 when the ratio leaf lacks the
    denominator or the numerator; otherwise, if the frequency leaf is supported, the
    calibrator is called, and if the value derived from its result (counter frequency
    times denominator by numerator) is not zero, that value is the crystal frequency;
    in the remaining cases (no frequency leaf, or a derived value of zero) the crystal
    frequency is the default 24,000,000.
  In every case the theorem gives the whole result of the call.
\<close>

theorem C8_crystal_from_table_or_fallback:
  fixes k h Recalculate s s1 MaxId Den Num Model Base Finish R
  defines "s1 \<equiv> (if Recalculate then s\<lparr>ARTFrequency := 0, CPUFrequencyFromART := 0\<rparr> else s)"
    and "MaxId \<equiv> Eax (AsmCpuid h CPUID_SIGNATURE)"
    and "Den \<equiv> Eax (AsmCpuid h CPUID_TIME_STAMP_COUNTER)"
    and "Num \<equiv> Ebx (AsmCpuid h CPUID_TIME_STAMP_COUNTER)"
    and "Model \<equiv> CpuModel (Eax (AsmCpuid h CPUID_VERSION_INFO))"
    and "Base \<equiv> Bits_ProcessorBaseFrequency (Eax (AsmCpuid h CPUID_PROCESSOR_FREQUENCY))"
    and "Finish \<equiv> (\<lambda>ART st.
           ASSERT k (0 < MultThenDivU64x64x32 ART (ucast Num) Den)
             (Some ((ART, MultThenDivU64x64x32 ART (ucast Num) Den),
                    st\<lparr>ARTFrequency := ART,
                       CPUFrequencyFromART := MultThenDivU64x64x32 ART (ucast Num) Den\<rparr>)))"
    and "R \<equiv> InternalCalcluateARTFrequencyIntel k h Recalculate s"
  assumes unset: "Recalculate \<or> (ARTFrequency s = 0 \<and> CPUFrequencyFromART s = 0)"
    and intel: "Ebx (AsmCpuid h CPUID_SIGNATURE) = CPUID_VENDOR_INTEL k"
    and m15: "CPUID_TIME_STAMP_COUNTER \<le> MaxId"
    and ecx: "Ecx (AsmCpuid h CPUID_TIME_STAMP_COUNTER) = 0"
  shows "(Model = CPU_MODEL_SKYLAKE k \<or> Model = CPU_MODEL_SKYLAKE_DT k \<longrightarrow>
            R = (if 0 < Den \<and> 0 < Num then Finish 24000000 s1
                 else Some ((24000000, 0), s1\<lparr>ARTFrequency := 24000000\<rparr>)))
       \<and> (Model \<notin> {CPU_MODEL_SKYLAKE k, CPU_MODEL_SKYLAKE_DT k, CPU_MODEL_KABYLAKE k,
                     CPU_MODEL_KABYLAKE_DT k, CPU_MODEL_DENVERTON k, CPU_MODEL_GOLDMONT k} \<longrightarrow>
            R = (if \<not> (0 < Den \<and> 0 < Num) then Some ((0, 0), s1)
                 else if \<not> CPUID_PROCESSOR_FREQUENCY \<le> MaxId then Finish 24000000 s1
                 else (case InternalCalculateTSCFromPMTimer k h Recalculate s1 of
                         None \<Rightarrow> None
                       | Some (CPUFrequencyFromTSC, s3) \<Rightarrow>
                           (let Derived = MultThenDivU64x64x32 CPUFrequencyFromTSC (ucast Den) Num
                            in if Derived = 0 then Finish 24000000 s3
                               else if Base \<noteq> 0 then
                                 Some ((Derived, MultU64x32 (ucast Base) 1000000),
                                       s3\<lparr>ARTFrequency := Derived,
                                          CPUFrequencyFromART :=
                                            MultU64x32 (ucast Base) 1000000\<rparr>)
                               else Finish Derived s3))))"
proof -
  have art0: "ARTFrequency s1 = 0" and cpu0: "CPUFrequencyFromART s1 = 0"
    using unset by (auto simp: s1_def)
  have R: "R = (case DetermineARTFrequency k h Recalculate s1 of
                  None \<Rightarrow> None
                | Some s' \<Rightarrow> Some ((ARTFrequency s', CPUFrequencyFromART s'), s'))"
    by (simp add: R_def InternalCalcluateARTFrequencyIntel_def s1_def)
  have det: "DetermineARTFrequency k h Recalculate s1 =
               (let s2 = s1\<lparr>ARTFrequency := KnownModelARTFrequency k Model 0\<rparr>
                in if 0 < Den \<and> 0 < Num
                   then ARTFrequencyFromRatio k h Recalculate MaxId Den Num s2
                   else Some s2)"
    using art0 intel m15 ecx
    by (simp add: DetermineARTFrequency_def Let_def MaxId_def Den_def Num_def Model_def)
  have sky: "R = (if 0 < Den \<and> 0 < Num then Finish 24000000 s1
                  else Some ((24000000, 0), s1\<lparr>ARTFrequency := 24000000\<rparr>))"
    if "Model = CPU_MODEL_SKYLAKE k \<or> Model = CPU_MODEL_SKYLAKE_DT k"
  proof -
    have known: "KnownModelARTFrequency k Model 0 = 24000000"
      using that by (rule skylake_model)
    have blk: "ARTFrequencyFromRatio k h Recalculate MaxId Den Num
                 (s1\<lparr>ARTFrequency := 24000000\<rparr>) =
           ASSERT k (0 < MultThenDivU64x64x32 24000000 (ucast Num) Den)
             (Some (s1\<lparr>ARTFrequency := 24000000,
                       CPUFrequencyFromART := MultThenDivU64x64x32 24000000 (ucast Num) Den\<rparr>))"
      using ratio_block_known_exact [of "s1\<lparr>ARTFrequency := 24000000\<rparr>" k h Recalculate
          MaxId Den Num] cpu0
      by simp
    show ?thesis
      using cpu0 by (simp add: R det known Let_def blk Finish_def ASSERT_def)
  qed
  have unk: "R = (if \<not> (0 < Den \<and> 0 < Num) then Some ((0, 0), s1)
                 else if \<not> CPUID_PROCESSOR_FREQUENCY \<le> MaxId then Finish 24000000 s1
                 else (case InternalCalculateTSCFromPMTimer k h Recalculate s1 of
                         None \<Rightarrow> None
                       | Some (CPUFrequencyFromTSC, s3) \<Rightarrow>
                           (let Derived = MultThenDivU64x64x32 CPUFrequencyFromTSC (ucast Den) Num
                            in if Derived = 0 then Finish 24000000 s3
                               else if Base \<noteq> 0 then
                                 Some ((Derived, MultU64x32 (ucast Base) 1000000),
                                       s3\<lparr>ARTFrequency := Derived,
                                          CPUFrequencyFromART :=
                                            MultU64x32 (ucast Base) 1000000\<rparr>)
                               else Finish Derived s3)))"
    if "Model \<notin> {CPU_MODEL_SKYLAKE k, CPU_MODEL_SKYLAKE_DT k, CPU_MODEL_KABYLAKE k,
                   CPU_MODEL_KABYLAKE_DT k, CPU_MODEL_DENVERTON k, CPU_MODEL_GOLDMONT k}"
  proof -
    have unknown: "KnownModelARTFrequency k Model 0 = 0"
      using that unknown_model_iff [of k Model] by blast
    have s2: "s1\<lparr>ARTFrequency := 0\<rparr> = s1" using art0 by simp
    have det': "DetermineARTFrequency k h Recalculate s1 =
                 (if 0 < Den \<and> 0 < Num
                  then ARTFrequencyFromRatio k h Recalculate MaxId Den Num s1
                  else Some s1)"
      by (simp add: det unknown s2)
    show ?thesis
      using art0 cpu0
      by (auto simp: R det' ratio_block_unknown_exact [OF art0 cpu0] Let_def Finish_def
          ASSERT_def Base_def split: option.splits)
  qed
  from sky unk show ?thesis by blast
qed

text \<open>
  Runs with assertions enabled: a Skylake processor with and without the ratio, and a
  model that the table does not name without the ratio, without the frequency leaf,
  and with both.
\<close>

theorem C8_crystal_from_table_or_fallback_witness:
  "InternalCalcluateARTFrequencyIntel reference_platform hw_skylake False initial_state
     = Some ((24000000, 4008000000),
             initial_state\<lparr>ARTFrequency := 24000000, CPUFrequencyFromART := 4008000000\<rparr>)
   \<and> InternalCalcluateARTFrequencyIntel reference_platform hw_skylake_no_ratio False
        initial_state
      = Some ((24000000, 0), initial_state\<lparr>ARTFrequency := 24000000\<rparr>)
   \<and> InternalCalcluateARTFrequencyIntel reference_platform
        (hw_intel 0x16 0x000706E5 0 0 0 0) False initial_state = Some ((0, 0), initial_state)
   \<and> InternalCalcluateARTFrequencyIntel reference_platform
        (hw_intel 0x15 0x000706E5 2 250 0 0) False initial_state
      = Some ((24000000, 3000000000),
              initial_state\<lparr>ARTFrequency := 24000000, CPUFrequencyFromART := 3000000000\<rparr>)
   \<and> InternalCalcluateARTFrequencyIntel reference_platform (hw_measured 3000) False
        initial_state
      = Some ((24000033, 3000000000),
              initial_state\<lparr>TSCFrequency := 3000004190, clock := 8, ARTFrequency := 24000033,
                CPUFrequencyFromART := 3000000000\<rparr>)"
proof -
  have a: "InternalCalcluateARTFrequencyIntel reference_platform hw_skylake False initial_state
     = Some ((24000000, 4008000000),
             initial_state\<lparr>ARTFrequency := 24000000, CPUFrequencyFromART := 4008000000\<rparr>)"
    using C8_crystal_from_table_or_fallback [where k = reference_platform and h = hw_skylake
        and Recalculate = False and s = initial_state]
    by (simp add: cpuid_leaves cpuid_hw_skylake cpuid_of_def initial_fields
        reference_platform_cpu CpuModel_skylake ASSERT_def MultThenDivU64x64x32_def)
  have b: "InternalCalcluateARTFrequencyIntel reference_platform hw_skylake_no_ratio False
        initial_state
      = Some ((24000000, 0), initial_state\<lparr>ARTFrequency := 24000000\<rparr>)"
    using C8_crystal_from_table_or_fallback [where k = reference_platform and h = hw_skylake_no_ratio
        and Recalculate = False and s = initial_state]
    by (simp add: cpuid_leaves cpuid_hw_skylake_no_ratio cpuid_of_def initial_fields
        reference_platform_cpu CpuModel_skylake)
  have c: "InternalCalcluateARTFrequencyIntel reference_platform
        (hw_intel 0x16 0x000706E5 0 0 0 0) False initial_state = Some ((0, 0), initial_state)"
    using C8_crystal_from_table_or_fallback [where k = reference_platform and h = "hw_intel 0x16 0x000706E5 0 0 0 0"
        and Recalculate = False and s = initial_state]
    by (simp add: cpuid_leaves cpuid_hw_unknown_no_ratio cpuid_of_def initial_fields
        reference_platform_cpu CpuModel_icelake)
  have d: "InternalCalcluateARTFrequencyIntel reference_platform
        (hw_intel 0x15 0x000706E5 2 250 0 0) False initial_state
      = Some ((24000000, 3000000000),
              initial_state\<lparr>ARTFrequency := 24000000, CPUFrequencyFromART := 3000000000\<rparr>)"
    using C8_crystal_from_table_or_fallback [where k = reference_platform and h = "hw_intel 0x15 0x000706E5 2 250 0 0"
        and Recalculate = False and s = initial_state]
    by (simp add: cpuid_leaves cpuid_hw_no_frequency_leaf cpuid_of_def initial_fields
        reference_platform_cpu CpuModel_icelake ASSERT_def MultThenDivU64x64x32_def)
  have e: "InternalCalcluateARTFrequencyIntel reference_platform (hw_measured 3000) False
        initial_state
      = Some ((24000033, 3000000000),
              initial_state\<lparr>TSCFrequency := 3000004190, clock := 8, ARTFrequency := 24000033,
                CPUFrequencyFromART := 3000000000\<rparr>)"
    using C8_crystal_from_table_or_fallback [where k = reference_platform and h = "hw_measured 3000"
        and Recalculate = False and s = initial_state]
    by (simp add: cpuid_leaves cpuid_hw_measured cpuid_of_def initial_fields
        reference_platform_cpu CpuModel_icelake calibrator_hw_measured
        MultThenDivU64x64x32_def MultU64x32_def Bits_ProcessorBaseFrequency_def)
  from a b c d e show ?thesis by simp
qed

section \<open>The orchestrator\<close>

text \<open>
  Both paths fail when nothing is cached, the processor is not an Intel one with the
  ratio leaf, and no timer is found: the call returns 0 and leaves the state as it is.
\<close>

lemma orchestrator_both_paths_fail:
  assumes "TSCFrequency s = 0" and "ARTFrequency s = 0" and "CPUFrequencyFromART s = 0"
    and "\<not> (Ebx (AsmCpuid h CPUID_SIGNATURE) = CPUID_VENDOR_INTEL k
            \<and> CPUID_TIME_STAMP_COUNTER \<le> Eax (AsmCpuid h CPUID_SIGNATURE))"
    and "fst (InternalGetPmTimerAddr k h False) = 0"
  shows "OcGetTSCFrequency k h s = Some (0, s)"
proof -
  have "DetermineARTFrequency k h False s = Some s"
    using assms(4) by (auto simp: DetermineARTFrequency_def Let_def)
  then have "InternalCalcluateARTFrequencyIntel k h False s = Some ((0, 0), s)"
    using assms(2,3) by (simp add: InternalCalcluateARTFrequencyIntel_def)
  moreover have "InternalCalculateTSCFromPMTimer k h False s = Some (0, s)"
    using assms(1,5) by (simp add: InternalCalculateTSCFromPMTimer_def Let_def)
  ultimately show ?thesis by (simp add: OcGetTSCFrequency_def)
qed

text \<open>
  C4. When the resolver returns a non-zero base frequency, \<^verbatim>\<open>OcGetTSCFrequency\<close>
  returns it, in the state the resolver left (the calibrator is not called, whatever
  it would return); when the base frequency is 0 it returns what the calibrator
  returns, and so 0 when the calibrator returns 0.
\<close>

theorem C4_orchestrator_prefers_resolver:
  assumes "InternalCalcluateARTFrequencyIntel k h False s = Some ((ART, CPU), s1)"
  shows "(CPU \<noteq> 0 \<longrightarrow> OcGetTSCFrequency k h s = Some (CPU, s1))
       \<and> (CPU = 0 \<longrightarrow> OcGetTSCFrequency k h s = InternalCalculateTSCFromPMTimer k h False s1)
       \<and> (CPU = 0 \<and> (\<exists>s2. InternalCalculateTSCFromPMTimer k h False s1 = Some (0, s2)) \<longrightarrow>
            (\<exists>s2. OcGetTSCFrequency k h s = Some (0, s2)))"
  using assms by (simp add: OcGetTSCFrequency_def)

text \<open>
  On the measured hardware the base frequency of the resolver is returned although the
  calibrator would return 3000004190; on hardware where both paths fail, 0.
\<close>

theorem C4_orchestrator_prefers_resolver_witness:
  "OcGetTSCFrequency reference_platform (hw_measured 3000) initial_state
     = Some (3000000000, initial_state\<lparr>TSCFrequency := 3000004190, clock := 8,
               ARTFrequency := 24000033, CPUFrequencyFromART := 3000000000\<rparr>)
   \<and> InternalCalculateTSCFromPMTimer reference_platform (hw_measured 3000) False
        (initial_state\<lparr>TSCFrequency := 3000004190, clock := 8,
               ARTFrequency := 24000033, CPUFrequencyFromART := 3000000000\<rparr>)
     = Some (3000004190, initial_state\<lparr>TSCFrequency := 3000004190, clock := 8,
               ARTFrequency := 24000033, CPUFrequencyFromART := 3000000000\<rparr>)
   \<and> OcGetTSCFrequency reference_platform hw_none initial_state = Some (0, initial_state)"
proof -
  have cached: "InternalCalculateTSCFromPMTimer reference_platform (hw_measured 3000) False
        (initial_state\<lparr>TSCFrequency := 3000004190, clock := 8,
               ARTFrequency := 24000033, CPUFrequencyFromART := 3000000000\<rparr>)
     = Some (3000004190, initial_state\<lparr>TSCFrequency := 3000004190, clock := 8,
               ARTFrequency := 24000033, CPUFrequencyFromART := 3000000000\<rparr>)"
    using calibrator_cached [of "initial_state\<lparr>TSCFrequency := 3000004190, clock := 8,
               ARTFrequency := 24000033, CPUFrequencyFromART := 3000000000\<rparr>"
        reference_platform "hw_measured 3000"]
    by simp
  have none: "InternalCalculateTSCFromPMTimer reference_platform hw_none False initial_state
                = Some (0, initial_state)"
    by (rule calibrator_hw_none) (simp add: initial_fields)
  show ?thesis
    using C4_orchestrator_prefers_resolver [OF resolver_hw_measured_3000]
      C4_orchestrator_prefers_resolver [OF resolver_hw_none] cached none
    by simp
qed

end
